theory Spec2Isabelle
  imports Main "HOL-Library.Char_ord" "HOL-Library.List_Lexorder"
begin

section \<open>Python strings\<close>

text \<open>
  A Python \<open>str\<close> is a sequence of code points. The model uses \<^typ>\<open>string\<close>; a
  \<^typ>\<open>char\<close> stands for a code point below 256. The order on strings is the
  lexicographic order on code points, which is the order Python's \<open>sorted\<close> uses.
\<close>

definition LF :: char where
  "LF = CHR 0x0A"

definition CR :: char where
  "CR = CHR 0x0D"

text \<open>
  \<open>str.isspace\<close> on one code point below 256: TAB, LF, VT, FF, CR, the separators
  FS, GS, RS, US, the space, NEL and the no-break space.
\<close>

definition isspace :: "char \<Rightarrow> bool" where
  "isspace c \<longleftrightarrow>
     (of_char c :: nat) \<in> set [0x09, 0x0A, 0x0B, 0x0C, 0x0D, 0x1C, 0x1D, 0x1E, 0x1F, 0x20, 0x85, 0xA0]"

text \<open>\<open>s.strip()\<close>: leading and trailing whitespace removed.\<close>

definition strip :: "string \<Rightarrow> string" where
  "strip s = rev (dropWhile isspace (rev (dropWhile isspace s)))"

text \<open>
  \<open>s.split()\<close> without a separator: the maximal runs of non-whitespace characters,
  in order. The first argument holds the current run, reversed.
\<close>

fun split_ws_aux :: "string \<Rightarrow> string \<Rightarrow> string list" where
  "split_ws_aux cur [] = (if cur = [] then [] else [rev cur])"
| "split_ws_aux cur (c # cs) =
     (if isspace c
      then (if cur = [] then split_ws_aux [] cs else rev cur # split_ws_aux [] cs)
      else split_ws_aux (c # cur) cs)"

definition split_ws :: "string \<Rightarrow> string list" where
  "split_ws s = split_ws_aux [] s"

text \<open>
  \<open>s.split(sep)\<close> with a one-character separator: every occurrence splits, empty
  pieces are kept, and the result is never empty.
\<close>

fun split_on_aux :: "char \<Rightarrow> string \<Rightarrow> string \<Rightarrow> string list" where
  "split_on_aux sep cur [] = [rev cur]"
| "split_on_aux sep cur (c # cs) =
     (if c = sep then rev cur # split_on_aux sep [] cs else split_on_aux sep (c # cur) cs)"

definition split_on :: "char \<Rightarrow> string \<Rightarrow> string list" where
  "split_on sep s = split_on_aux sep [] s"

text \<open>\<open>sep.join(xs)\<close>.\<close>

fun join :: "string \<Rightarrow> string list \<Rightarrow> string" where
  "join sep [] = []"
| "join sep [x] = x"
| "join sep (x # y # ys) = x @ sep @ join sep (y # ys)"

text \<open>\<open>str(n)\<close> for a natural number: its decimal digits.\<close>

definition digit_char :: "nat \<Rightarrow> char" where
  "digit_char d = char_of (48 + d)"

function str_nat_aux :: "nat \<Rightarrow> string \<Rightarrow> string" where
  "str_nat_aux n acc =
     (if n < 10 then digit_char n # acc
      else str_nat_aux (n div 10) (digit_char (n mod 10) # acc))"
  by pat_completeness auto
termination
  by (relation "measure fst") auto

definition str_nat :: "nat \<Rightarrow> string" where
  "str_nat n = str_nat_aux n []"

text \<open>
  Iterating over a file opened for reading in text mode (universal newlines): the
  content is cut after each LF, CR LF or lone CR, and every terminator is handed
  over as a single LF. A last line without terminator is handed over as it is.
\<close>

fun file_lines_aux :: "string \<Rightarrow> string \<Rightarrow> string list" where
  "file_lines_aux cur [] = (if cur = [] then [] else [rev cur])"
| "file_lines_aux cur (c # cs) =
     (if c = LF then rev (LF # cur) # file_lines_aux [] cs
      else if c = CR then
        (case cs of
           [] \<Rightarrow> [rev (LF # cur)]
         | d # ds \<Rightarrow>
             if d = LF then rev (LF # cur) # file_lines_aux [] ds
             else rev (LF # cur) # file_lines_aux [] cs)
      else file_lines_aux (c # cur) cs)"

definition file_lines :: "string \<Rightarrow> string list" where
  "file_lines s = file_lines_aux [] s"

section \<open>Data model\<close>

text \<open>The dataclass \<open>ProcessingOptions\<close>; a \<open>Path\<close> is the string of the path.\<close>

record ProcessingOptions =
  url_fallback :: bool
  url_always :: bool
  parse_pdf :: bool
  tags_file :: "string option"

text \<open>An exception object: its class name and \<open>str(e)\<close>.\<close>

datatype exn = Exception (exn_class: string) (exn_str: string)

datatype level = INFO | WARNING | ERROR

text \<open>
  Catalog items, as the catalog service returns them. A string member that an item
  leaves out is the empty string, which is how \<open>data.get(k, '')\<close> reads it.
\<close>

record tag_entry =
  tag :: string
  tag_type :: "nat option"

record item_data =
  key :: string
  title :: string
  abstractNote :: string
  itemType :: string
  tags :: "tag_entry list"
  url :: string

record item =
  item_key :: string
  item_version :: nat
  data :: item_data

record attachment =
  contentType :: "string option"
  att_url :: "string option"

text \<open>The dictionary built by \<open>get_document_metadata\<close>.\<close>

record metadata =
  md_title :: string
  md_abstract :: string
  md_key :: string
  md_item_type :: string
  md_existing_tags :: "string list"
  md_url :: string
  md_pdf_attachment :: "string option"

text \<open>Calls to the outside: \<open>requests.get\<close>, the catalog client, the language model.\<close>

record request =
  req_url :: string
  req_headers :: "(string \<times> string) list"
  req_timeout :: "nat option"

record response =
  raise_for_status :: "exn option"
  resp_content :: string
  resp_text :: string

record llm_request =
  model :: string
  max_tokens :: nat
  temperature :: nat
  system :: string
  user_content :: string

datatype block = TextBlock string | ToolUseBlock

datatype call =
    HttpGet request
  | ZotTop "int option"
  | ZotChildren string
  | ZotItem string
  | ZotUpdateItem item
  | MessagesCreate llm_request

text \<open>
  What the outside answers. Each field is what the library call of that name returns
  or raises; \<open>getenv\<close> is the process environment once \<open>load_dotenv()\<close> has run,
  \<open>parse_args\<close> what the argument parser of lines 293 to 305 makes of the command
  line (the record \<open>args\<close> is its namespace), \<open>repr_list\<close> is Python's rendering
  of a list of strings inside an f-string, \<open>open_write_error\<close> the exception that
  opening a path for writing raises, \<open>write_error p content\<close> the exception that
  writing \<open>content\<close> to the opened file \<open>p\<close> or closing it raises, with the
  number of characters that have reached the file by then, \<open>zot_update_error\<close> the exception that the
  catalog raises when it refuses an update,
  \<open>soup_select html sel\<close> the stripped texts of the elements that
  \<open>sel\<close> selects once script, style, nav, header and footer elements are removed,
  \<open>soup_body_text\<close> the stripped text of the body, \<open>PdfReader\<close> the pages of a
  PDF, each with what its \<open>extract_text()\<close> returns or raises.
\<close>

record args =
  arg_url_fallback :: bool
  arg_url_always :: bool
  arg_parse_pdf :: bool
  arg_tags_file :: "string option"
  arg_limit :: "int option"

record env =
  getenv :: "string \<rightharpoonup> string"
  parse_args :: "string list \<Rightarrow> exn + args"
  requests_get :: "request \<Rightarrow> exn + response"
  soup_select :: "string \<Rightarrow> string \<Rightarrow> string list"
  soup_body_text :: "string \<Rightarrow> exn + string"
  PdfReader :: "string \<Rightarrow> exn + (exn + string) list"
  messages_create :: "llm_request \<Rightarrow> exn + block list"
  repr_list :: "string list \<Rightarrow> string"
  open_write_error :: "string \<Rightarrow> exn option"
  write_error :: "string \<Rightarrow> string \<Rightarrow> (nat \<times> exn) option"
  zot_top :: "int option \<Rightarrow> exn + item list"
  zot_children :: "string \<Rightarrow> exn + attachment list"
  zot_update_error :: "item \<Rightarrow> exn option"

text \<open>
  The mutable world: the files, the catalog (what \<open>zot.item(key)\<close> returns or
  raises), the calls made so far, the log records and the seconds slept.
\<close>

record world =
  files :: "string \<rightharpoonup> string"
  zot_item :: "string \<Rightarrow> exn + item"
  calls :: "call list"
  log :: "(level \<times> string) list"
  slept :: nat

text \<open>The fields of a \<open>ZoteroTagger\<close> object.\<close>

record tagger =
  zot :: "string \<times> string \<times> string"
  anthropic :: string
  options :: ProcessingOptions
  existing_tags :: "string set"

definition logger :: "level \<Rightarrow> string \<Rightarrow> world \<Rightarrow> world" where
  "logger lv msg w = w\<lparr>log := log w @ [(lv, msg)]\<rparr>"

definition record_call :: "call \<Rightarrow> world \<Rightarrow> world" where
  "record_call c w = w\<lparr>calls := calls w @ [c]\<rparr>"

section \<open>The tag vocabulary file\<close>

text \<open>\<open>load_existing_tags\<close> (lines 62 to 70).\<close>

definition load_existing_tags :: "tagger \<Rightarrow> world \<Rightarrow> tagger \<times> world" where
  "load_existing_tags tg w =
     (case tags_file (options tg) of
        None \<Rightarrow>
          (tg\<lparr>existing_tags := {}\<rparr>, logger INFO ''Starting with empty tags set'' w)
      | Some p \<Rightarrow>
          (case files w p of
             None \<Rightarrow>
               (tg\<lparr>existing_tags := {}\<rparr>, logger INFO ''Starting with empty tags set'' w)
           | Some txt \<Rightarrow>
               (let ts = set (map strip (filter (\<lambda>line. strip line \<noteq> []) (file_lines txt)))
                in (tg\<lparr>existing_tags := ts\<rparr>,
                    logger INFO (''Loaded '' @ str_nat (card ts) @ '' existing tags from '' @ p) w))))"

text \<open>
  \<open>save_existing_tags\<close> (lines 72 to 78): the exception raised, if any. Opening
  the file for writing may raise, and the file is then as it was. Once the file is
  open it is empty; when a write or the close raises, a prefix of the text has
  reached the file and stays there. The record of line 78 is logged only when
  nothing was raised.
\<close>

definition tags_text :: "string set \<Rightarrow> string" where
  "tags_text ts = concat (map (\<lambda>t. t @ [LF]) (sorted_list_of_set ts))"

definition save_existing_tags :: "env \<Rightarrow> tagger \<Rightarrow> world \<Rightarrow> exn option \<times> world" where
  "save_existing_tags e tg w =
     (case tags_file (options tg) of
        None \<Rightarrow> (None, w)
      | Some p \<Rightarrow>
          (case open_write_error e p of
             Some x \<Rightarrow> (Some x, w)
           | None \<Rightarrow>
               (let content = tags_text (existing_tags tg)
                in case write_error e p content of
                     Some (n, x) \<Rightarrow> (Some x, w\<lparr>files := (files w)(p \<mapsto> take n content)\<rparr>)
                   | None \<Rightarrow>
                       (None,
                        logger INFO
                          (''Saved '' @ str_nat (card (existing_tags tg)) @ '' tags to '' @ p)
                          (w\<lparr>files := (files w)(p \<mapsto> content)\<rparr>)))))"

section \<open>Content extraction\<close>

text \<open>The loop of lines 96 to 98 over the pages, \<open>text\<close> being the accumulator.\<close>

fun pages_text :: "(exn + string) list \<Rightarrow> string \<Rightarrow> exn + string" where
  "pages_text [] text = Inr text"
| "pages_text (page # pages) text =
     (case page of
        Inl x \<Rightarrow> Inl x
      | Inr t \<Rightarrow> pages_text pages (text @ t @ [LF]))"

definition pdf_request :: "string \<Rightarrow> request" where
  "pdf_request pdf_url = \<lparr>req_url = pdf_url, req_headers = [], req_timeout = None\<rparr>"

text \<open>Lines 89 to 98: the text of the first five pages, or the exception raised.\<close>

definition pdf_text :: "env \<Rightarrow> string \<Rightarrow> exn + string" where
  "pdf_text e pdf_url =
     (case requests_get e (pdf_request pdf_url) of
        Inl x \<Rightarrow> Inl x
      | Inr r \<Rightarrow>
          (case raise_for_status r of
             Some x \<Rightarrow> Inl x
           | None \<Rightarrow>
               (case PdfReader e (resp_content r) of
                  Inl x \<Rightarrow> Inl x
                | Inr pages \<Rightarrow> pages_text (take 5 pages) [])))"

text \<open>\<open>extract_text_from_pdf\<close> (lines 80 to 106).\<close>

definition extract_text_from_pdf ::
  "tagger \<Rightarrow> env \<Rightarrow> string \<Rightarrow> world \<Rightarrow> string option \<times> world" where
  "extract_text_from_pdf tg e pdf_url w =
     (if \<not> parse_pdf (options tg) then (None, w)
      else
        (let w1 = record_call (HttpGet (pdf_request pdf_url)) w
         in case pdf_text e pdf_url of
              Inl x \<Rightarrow> (None, logger ERROR (''Error extracting PDF text: '' @ exn_str x) w1)
            | Inr text \<Rightarrow>
                (let words = split_ws text
                 in (Some (join '' '' (take 2000 words)), w1))))"

definition webpage_request :: "string \<Rightarrow> request" where
  "webpage_request u =
     \<lparr>req_url = u,
      req_headers =
        [(''User-Agent'', ''Mozilla/5.0 (Windows NT 10.0; Win64; x64) AppleWebKit/537.36'')],
      req_timeout = Some 10\<rparr>"

text \<open>The loop of lines 132 to 137 over the selectors.\<close>

fun select_content :: "env \<Rightarrow> string \<Rightarrow> string list \<Rightarrow> string" where
  "select_content e html [] = []"
| "select_content e html (sel # sels) =
     (let elements = soup_select e html sel
      in if elements \<noteq> [] then join '' '' elements else select_content e html sels)"

text \<open>Lines 119 to 140: the content of the page, or the exception raised.\<close>

definition webpage_content :: "env \<Rightarrow> string \<Rightarrow> exn + string" where
  "webpage_content e u =
     (case requests_get e (webpage_request u) of
        Inl x \<Rightarrow> Inl x
      | Inr r \<Rightarrow>
          (case raise_for_status r of
             Some x \<Rightarrow> Inl x
           | None \<Rightarrow>
               (let content =
                      select_content e (resp_text r)
                        [''article'', ''main'', ''.content'', ''.post'', ''.entry'']
                in if content = [] then soup_body_text e (resp_text r) else Inr content)))"

text \<open>\<open>extract_text_from_webpage\<close> (lines 108 to 148).\<close>

definition extract_text_from_webpage ::
  "tagger \<Rightarrow> env \<Rightarrow> string \<Rightarrow> bool \<Rightarrow> world \<Rightarrow> string option \<times> world" where
  "extract_text_from_webpage tg e u has_pdf w =
     (if \<not> (url_always (options tg) \<or> (url_fallback (options tg) \<and> \<not> has_pdf))
      then (None, w)
      else
        (let w1 = record_call (HttpGet (webpage_request u)) w
         in case webpage_content e u of
              Inl x \<Rightarrow>
                (None, logger ERROR (''Error extracting webpage content: '' @ exn_str x) w1)
            | Inr content \<Rightarrow>
                (let words = split_ws content
                 in (Some (join '' '' (take 2000 words)), w1))))"

section \<open>Metadata\<close>

text \<open>
  The loop of lines 166 to 170 over the attachments: the URL of the first PDF
  attachment that has one; an attachment without content type raises \<open>KeyError\<close>,
  whose string is the quoted key.
\<close>

fun find_pdf :: "attachment list \<Rightarrow> exn + string option" where
  "find_pdf [] = Inr None"
| "find_pdf (a # as) =
     (case contentType a of
        None \<Rightarrow> Inl (Exception ''KeyError'' (CHR 0x27 # ''contentType'' @ [CHR 0x27]))
      | Some ct \<Rightarrow>
          (if ct = ''application/pdf'' \<and> att_url a \<noteq> None then Inr (att_url a)
           else find_pdf as))"

text \<open>\<open>get_document_metadata\<close> (lines 150 to 174).\<close>

definition get_document_metadata :: "tagger \<Rightarrow> env \<Rightarrow> item \<Rightarrow> world \<Rightarrow> metadata \<times> world" where
  "get_document_metadata tg e it w =
     (let d = data it;
          md = \<lparr>md_title = title d, md_abstract = abstractNote d, md_key = key d,
                md_item_type = itemType d, md_existing_tags = map tag (tags d),
                md_url = url d, md_pdf_attachment = None\<rparr>;
          w1 = record_call (ZotChildren (md_key md)) w
      in case zot_children e (md_key md) of
           Inl x \<Rightarrow> (md, logger ERROR (''Error getting attachments: '' @ exn_str x) w1)
         | Inr attachments \<Rightarrow>
             (case find_pdf attachments of
                Inl x \<Rightarrow> (md, logger ERROR (''Error getting attachments: '' @ exn_str x) w1)
              | Inr None \<Rightarrow> (md, w1)
              | Inr (Some u) \<Rightarrow> (md\<lparr>md_pdf_attachment := Some u\<rparr>, w1)))"

section \<open>Tag suggestions\<close>

text \<open>
  Lines 180 to 200 of \<open>get_claude_suggestions\<close>: the content parts, in the order
  title, abstract, webpage excerpt, PDF excerpt, each only when it is not empty.
\<close>

definition content_parts :: "tagger \<Rightarrow> env \<Rightarrow> metadata \<Rightarrow> world \<Rightarrow> string list \<times> world" where
  "content_parts tg e md w =
     (let parts0 = (if md_title md \<noteq> [] then [''Title: '' @ md_title md] else []);
          parts1 = parts0 @ (if md_abstract md \<noteq> [] then [''Abstract: '' @ md_abstract md] else []);
          has_pdf = (case md_pdf_attachment md of None \<Rightarrow> False | Some u \<Rightarrow> u \<noteq> []);
          (webpage, w1) =
             (if md_url md \<noteq> [] then extract_text_from_webpage tg e (md_url md) has_pdf w
              else (None, w));
          parts2 = parts1 @
             (case webpage of
                None \<Rightarrow> []
              | Some c \<Rightarrow> if c \<noteq> [] then [''Webpage content: '' @ c] else []);
          (pdf, w2) =
             (case md_pdf_attachment md of
                None \<Rightarrow> (None, w1)
              | Some u \<Rightarrow>
                  if u \<noteq> [] \<and> parse_pdf (options tg) then extract_text_from_pdf tg e u w1
                  else (None, w1));
          parts3 = parts2 @
             (case pdf of
                None \<Rightarrow> []
              | Some c \<Rightarrow> if c \<noteq> [] then [''PDF content: '' @ c] else [])
      in (parts3, w2))"

text \<open>The two prompts of lines 204 to 221; every line after the first is indented by twelve spaces.\<close>

definition indent :: string where
  "indent = replicate 12 CHR '' ''"

definition prompt_rules :: "string \<Rightarrow> string" where
  "prompt_rules vocabulary =
     indent @ ''Apply suitable tags from this existing set: '' @ vocabulary @ [LF] @
     indent @ ''Create new tags if one of the central concepts from the paper is not among the existing tags. The document is already from an AI/ML collection, so refrain from setting generic tags like 'Machine Learning' or 'Computer Science'. '' @ [LF] @
     indent @ ''Tags should be in Capital Case with spaces as separators (e.g., LLM Jailbreaking, Protein Design, ...)'' @ [LF]"

definition conservative_instruction :: string where
  "conservative_instruction = ''Be conservative with tag suggestions when working with title only.''"

definition prompt_end :: string where
  "prompt_end = indent @ ''Please respond with ONLY the tags, one per line, nothing else.''"

definition title_only_prompt :: "string \<Rightarrow> string \<Rightarrow> string" where
  "title_only_prompt vocabulary part =
     ''Please suggest 3-5 relevant tags for this document based only on its title.'' @ [LF] @
     prompt_rules vocabulary @
     indent @ conservative_instruction @ [LF] @
     [LF] @
     indent @ part @ [LF] @
     [LF] @
     prompt_end"

definition multi_field_prompt :: "string \<Rightarrow> string list \<Rightarrow> string" where
  "multi_field_prompt vocabulary parts =
     ''Please analyze this document and suggest 3-5 relevant tags.'' @ [LF] @
     prompt_rules vocabulary @
     [LF] @
     indent @ join [LF] parts @ [LF] @
     [LF] @
     prompt_end"

text \<open>Lines 203 to 221: the choice of the prompt.\<close>

definition build_prompt :: "env \<Rightarrow> tagger \<Rightarrow> metadata \<Rightarrow> string list \<Rightarrow> string" where
  "build_prompt e tg md parts =
     (let vocabulary = repr_list e (sorted_list_of_set (existing_tags tg))
      in case parts of
           [part] \<Rightarrow>
             if md_title md \<noteq> [] then title_only_prompt vocabulary part
             else multi_field_prompt vocabulary parts
         | _ \<Rightarrow> multi_field_prompt vocabulary parts)"

definition suggestion_request :: "string \<Rightarrow> llm_request" where
  "suggestion_request prompt =
     \<lparr>model = ''claude-3-5-sonnet-latest'', max_tokens = 150, temperature = 0,
      system = ''You are a helpful academic librarian who creates consistent, descriptive tags for academic papers, reports, and blog posts.'',
      user_content = prompt\<rparr>"

text \<open>Line 232: the stripped, non-empty lines of the answer.\<close>

definition parse_tags :: "string \<Rightarrow> string list" where
  "parse_tags txt = map strip (filter (\<lambda>t. strip t \<noteq> []) (split_on LF txt))"

text \<open>
  The body of the \<open>try\<close> of lines 224 to 238: the suggested tags, or the exception
  raised by the call, by reading the first block of the answer or by the save.
\<close>

definition suggest_try ::
  "env \<Rightarrow> tagger \<Rightarrow> string \<Rightarrow> world \<Rightarrow> (exn + string list) \<times> tagger \<times> world" where
  "suggest_try e tg prompt w =
     (let w1 = record_call (MessagesCreate (suggestion_request prompt)) w
      in case messages_create e (suggestion_request prompt) of
           Inl x \<Rightarrow> (Inl x, tg, w1)
         | Inr [] \<Rightarrow> (Inl (Exception ''IndexError'' ''list index out of range''), tg, w1)
         | Inr (ToolUseBlock # _) \<Rightarrow>
             (Inl (Exception ''AttributeError''
                    (CHR 0x27 # ''ToolUseBlock' object has no attribute 'text'' @ [CHR 0x27])),
              tg, w1)
         | Inr (TextBlock txt # _) \<Rightarrow>
             (let suggested_tags = parse_tags txt;
                  tg1 = tg\<lparr>existing_tags := existing_tags tg \<union> set suggested_tags\<rparr>
              in case save_existing_tags e tg1 w1 of
                   (Some x, w2) \<Rightarrow> (Inl x, tg1, w2)
                 | (None, w2) \<Rightarrow> (Inr suggested_tags, tg1, w2)))"

text \<open>\<open>get_claude_suggestions\<close> (lines 176 to 242).\<close>

definition get_claude_suggestions ::
  "env \<Rightarrow> tagger \<Rightarrow> metadata \<Rightarrow> world \<Rightarrow> (exn + string list) \<times> tagger \<times> world" where
  "get_claude_suggestions e tg md w =
     (let (parts, w1) = content_parts tg e md w;
          prompt = build_prompt e tg md parts
      in case suggest_try e tg prompt w1 of
           (Inl x, tg1, w2) \<Rightarrow>
             (Inr [], tg1, logger ERROR (''Error getting Claude suggestions: '' @ exn_str x) w2)
         | (Inr suggested_tags, tg1, w2) \<Rightarrow> (Inr suggested_tags, tg1, w2))"

section \<open>Updating an item\<close>

text \<open>The loop of lines 251 to 253; a new entry is the dictionary with the one key \<open>tag\<close>.\<close>

fun add_new_tags :: "tag_entry list \<Rightarrow> string list \<Rightarrow> tag_entry list" where
  "add_new_tags current_tags [] = current_tags"
| "add_new_tags current_tags (t # ts) =
     add_new_tags
       (if t \<notin> set (map tag current_tags)
        then current_tags @ [\<lparr>tag = t, tag_type = None\<rparr>]
        else current_tags)
       ts"

text \<open>\<open>update_item_tags\<close> (lines 244 to 258).\<close>

definition update_item_tags :: "tagger \<Rightarrow> env \<Rightarrow> string \<Rightarrow> string list \<Rightarrow> world \<Rightarrow> world" where
  "update_item_tags tg e k new_tags w =
     (let w1 = record_call (ZotItem k) w
      in case zot_item w k of
           Inl x \<Rightarrow> logger ERROR (''Error updating item '' @ k @ '': '' @ exn_str x) w1
         | Inr it \<Rightarrow>
             (let current_tags = add_new_tags (tags (data it)) new_tags;
                  it1 = it\<lparr>data := (data it)\<lparr>tags := current_tags\<rparr>\<rparr>;
                  w2 = record_call (ZotUpdateItem it1) w1
              in case zot_update_error e it1 of
                   Some x \<Rightarrow> logger ERROR (''Error updating item '' @ k @ '': '' @ exn_str x) w2
                 | None \<Rightarrow> w2\<lparr>zot_item := (zot_item w2)(item_key it1 := Inr it1)\<rparr>))"

section \<open>Walking the library\<close>

text \<open>
  The body of the loop of lines 265 to 290 for item number \<open>i\<close> of \<open>total_items\<close>. The
  result also carries the tags suggested for the item (none when it is skipped),
  which the source only logs. An exception out of \<open>get_claude_suggestions\<close> is
  logged by the handler of line 289.
\<close>

definition process_item ::
  "env \<Rightarrow> tagger \<Rightarrow> nat \<Rightarrow> nat \<Rightarrow> item \<Rightarrow> world \<Rightarrow> string list \<times> tagger \<times> world" where
  "process_item e tg i total_items it w =
     (let (md, w1) = get_document_metadata tg e it w;
          w2 = logger INFO
                 (LF # ''Processing item '' @ str_nat i @ ''/'' @ str_nat total_items @ '': '' @ md_title md) w1;
          w3 = logger INFO (''Item type: '' @ md_item_type md) w2
      in if md_title md = [] then ([], tg, logger WARNING ''Skipping item with no title'' w3)
         else
           (case get_claude_suggestions e tg md w3 of
              (Inl x, tg1, w4) \<Rightarrow> ([], tg1, logger ERROR (''Error processing item: '' @ exn_str x) w4)
            | (Inr suggested_tags, tg1, w4) \<Rightarrow>
                (let w5 =
                       (if suggested_tags \<noteq> [] then
                          (let w51 = logger INFO (''Suggested tags: '' @ repr_list e suggested_tags) w4;
                               w52 = logger INFO (''Existing tags: '' @ repr_list e (md_existing_tags md)) w51;
                               w53 = update_item_tags tg1 e (md_key md) suggested_tags w52
                           in logger INFO ''Tags updated successfully'' w53)
                        else logger WARNING ''No tags were suggested'' w4)
                 in (suggested_tags, tg1, w5\<lparr>slept := slept w5 + 1\<rparr>))))"

fun process_items ::
  "env \<Rightarrow> tagger \<Rightarrow> nat \<Rightarrow> nat \<Rightarrow> item list \<Rightarrow> world \<Rightarrow> string list list \<times> tagger \<times> world" where
  "process_items e tg i total_items [] w = ([], tg, w)"
| "process_items e tg i total_items (it # its) w =
     (case process_item e tg i total_items it w of
        (s, tg1, w1) \<Rightarrow>
          (case process_items e tg1 (Suc i) total_items its w1 of
             (ss, tg2, w2) \<Rightarrow> (s # ss, tg2, w2)))"

text \<open>\<open>process_library\<close> (lines 260 to 290); an exception of \<open>zot.top\<close> is not caught.\<close>

definition process_library ::
  "env \<Rightarrow> tagger \<Rightarrow> int option \<Rightarrow> world \<Rightarrow> (exn + string list list) \<times> tagger \<times> world" where
  "process_library e tg limit w =
     (let w1 = record_call (ZotTop limit) w
      in case zot_top e limit of
           Inl x \<Rightarrow> (Inl x, tg, w1)
         | Inr items \<Rightarrow>
             (case process_items e tg 1 (length items) items w1 of
                (ss, tg1, w2) \<Rightarrow> (Inr ss, tg1, w2)))"

section \<open>Start-up\<close>

text \<open>Python's \<open>not v\<close> for a value that is \<open>None\<close> or a string.\<close>

definition falsy :: "string option \<Rightarrow> bool" where
  "falsy v = (case v of None \<Rightarrow> True | Some s \<Rightarrow> s = [])"

text \<open>The dictionary of lines 28 to 33, in insertion order.\<close>

definition required_vars :: "env \<Rightarrow> (string \<times> string option) list" where
  "required_vars e =
     [(''ZOTERO_LIBRARY_ID'', getenv e ''ZOTERO_LIBRARY_ID''),
      (''ZOTERO_LIBRARY_TYPE'',
         (case getenv e ''ZOTERO_LIBRARY_TYPE'' of None \<Rightarrow> Some ''group'' | Some v \<Rightarrow> Some v)),
      (''ZOTERO_API_KEY'', getenv e ''ZOTERO_API_KEY''),
      (''ANTHROPIC_API_KEY'', getenv e ''ANTHROPIC_API_KEY'')]"

definition missing_vars :: "env \<Rightarrow> string list" where
  "missing_vars e = map fst (filter (\<lambda>(k, v). falsy v) (required_vars e))"

definition var :: "env \<Rightarrow> string \<Rightarrow> string" where
  "var e k = (case map_of (required_vars e) k of Some (Some v) \<Rightarrow> v | _ \<Rightarrow> [])"

text \<open>
  \<open>ZoteroTagger.__init__\<close> (lines 24 to 60): the new object, or the exception
  raised. Creating the two clients and configuring the logging calls nothing outside.
\<close>

definition ZoteroTagger_init :: "env \<Rightarrow> ProcessingOptions \<Rightarrow> world \<Rightarrow> (exn + tagger) \<times> world" where
  "ZoteroTagger_init e opts w =
     (let missing = missing_vars e
      in if missing \<noteq> [] then
           (Inl (Exception ''ValueError'' (''Missing environment variables: '' @ join '', '' missing)), w)
         else
           (let tg = \<lparr>zot = (var e ''ZOTERO_LIBRARY_ID'', var e ''ZOTERO_LIBRARY_TYPE'', var e ''ZOTERO_API_KEY''),
                      anthropic = var e ''ANTHROPIC_API_KEY'',
                      options = opts,
                      existing_tags = {}\<rparr>
            in case load_existing_tags tg w of (tg1, w1) \<Rightarrow> (Inr tg1, w1)))"

section \<open>The command line\<close>

text \<open>The names that the module binds at top level: its imports (lines 1 to 14) and its definitions.\<close>

definition module_globals :: "string list" where
  "module_globals =
     [''os'', ''load_dotenv'', ''zotero'', ''Anthropic'', ''json'', ''List'', ''Dict'', ''Set'',
      ''Optional'', ''time'', ''Path'', ''requests'', ''PyPDF2'', ''BytesIO'', ''BeautifulSoup'',
      ''logging'', ''dataclass'', ''ProcessingOptions'', ''ZoteroTagger'', ''main'']"

text \<open>
  \<open>main\<close> (lines 292 to 317): the exception that ends it, if any. Line 293 looks the
  name \<open>argparse\<close> up among the globals of the module.
\<close>

definition main :: "env \<Rightarrow> string list \<Rightarrow> world \<Rightarrow> exn option \<times> world" where
  "main e argv w =
     (if ''argparse'' \<notin> set module_globals
      then (Some (Exception ''NameError'' ''name 'argparse' is not defined''), w)
      else
        (case parse_args e argv of
           Inl x \<Rightarrow> (Some x, w)
         | Inr a \<Rightarrow>
             (let opts = \<lparr>url_fallback = arg_url_fallback a, url_always = arg_url_always a,
                          parse_pdf = arg_parse_pdf a, tags_file = arg_tags_file a\<rparr>
              in case ZoteroTagger_init e opts w of
                   (Inl x, w1) \<Rightarrow> (Some x, w1)
                 | (Inr tagger, w1) \<Rightarrow>
                     (case process_library e tagger (arg_limit a) w1 of
                        (Inl x, _, w2) \<Rightarrow> (Some x, w2)
                      | (Inr _, _, w2) \<Rightarrow> (None, w2)))))"

section \<open>Auxiliary notions for the properties\<close>

text \<open>A token: a non-empty string without whitespace.\<close>

definition token :: "string \<Rightarrow> bool" where
  "token t \<longleftrightarrow> t \<noteq> [] \<and> list_all (\<lambda>c. \<not> isspace c) t"



text \<open>
  The four content fields of an item and their availability: the webpage excerpt
  and the PDF excerpt are what lines 192 and 198 obtain; a field is available when
  it is a non-empty string.
\<close>

definition available :: "string option \<Rightarrow> bool" where
  "available x = (case x of None \<Rightarrow> False | Some c \<Rightarrow> c \<noteq> [])"

definition webpage_excerpt :: "tagger \<Rightarrow> env \<Rightarrow> metadata \<Rightarrow> world \<Rightarrow> string option" where
  "webpage_excerpt tg e md w =
     (if md_url md \<noteq> []
      then fst (extract_text_from_webpage tg e (md_url md)
                 (case md_pdf_attachment md of None \<Rightarrow> False | Some u \<Rightarrow> u \<noteq> []) w)
      else None)"

definition pdf_excerpt :: "tagger \<Rightarrow> env \<Rightarrow> metadata \<Rightarrow> world \<Rightarrow> string option" where
  "pdf_excerpt tg e md w =
     (case md_pdf_attachment md of
        None \<Rightarrow> None
      | Some u \<Rightarrow>
          if u \<noteq> [] \<and> parse_pdf (options tg) then fst (extract_text_from_pdf tg e u w) else None)"

definition available_fields :: "tagger \<Rightarrow> env \<Rightarrow> metadata \<Rightarrow> world \<Rightarrow> bool list" where
  "available_fields tg e md w =
     [md_title md \<noteq> [], md_abstract md \<noteq> [],
      available (webpage_excerpt tg e md w), available (pdf_excerpt tg e md w)]"

definition available_count :: "tagger \<Rightarrow> env \<Rightarrow> metadata \<Rightarrow> world \<Rightarrow> nat" where
  "available_count tg e md w = length (filter (\<lambda>b. b) (available_fields tg e md w))"

text \<open>The content part that a field contributes under its label: none when it is not available.\<close>

definition part :: "string \<Rightarrow> string option \<Rightarrow> string list" where
  "part label x = (case x of None \<Rightarrow> [] | Some c \<Rightarrow> if c \<noteq> [] then [label @ c] else [])"



section \<open>Sample inputs\<close>

definition item0 :: item where
  "item0 =
     \<lparr>item_key = ''K1'', item_version = 1,
      data = \<lparr>key = ''K1'', title = ''Attention Is All You Need'', abstractNote = [],
               itemType = ''journalArticle'', tags = [\<lparr>tag = ''NLP'', tag_type = Some 1\<rparr>],
               url = []\<rparr>\<rparr>"

definition options0 :: ProcessingOptions where
  "options0 = \<lparr>url_fallback = True, url_always = False, parse_pdf = True, tags_file = Some ''tags.txt''\<rparr>"

definition tagger0 :: tagger where
  "tagger0 = \<lparr>zot = (''1'', ''group'', ''k''), anthropic = ''a'', options = options0, existing_tags = {}\<rparr>"

definition env0 :: env where
  "env0 =
     \<lparr>getenv = [''ZOTERO_LIBRARY_ID'' \<mapsto> ''1'', ''ZOTERO_API_KEY'' \<mapsto> ''k''],
      parse_args = (\<lambda>argv. Inl (Exception ''SystemExit'' ''2'')),
      requests_get = (\<lambda>r. Inr \<lparr>raise_for_status = None, resp_content = ''%PDF'', resp_text = ''<html>''\<rparr>),
      soup_select = (\<lambda>html sel. if sel = ''main'' then [''one two'', ''three''] else []),
      soup_body_text = (\<lambda>html. Inr ''body''),
      PdfReader = (\<lambda>content. Inr [Inr ''alpha beta'', Inr ''gamma'']),
      messages_create = (\<lambda>r. Inr [TextBlock (''Transformers'' @ [LF] @ ''Attention Mechanisms'' @ [LF])]),
      repr_list = (\<lambda>xs. ''['' @ join '', '' xs @ '']''),
      open_write_error = (\<lambda>p. None),
      write_error = (\<lambda>p content. None),
      zot_top = (\<lambda>limit. Inr [item0]),
      zot_children = (\<lambda>k. Inr []),
      zot_update_error = (\<lambda>it. None)\<rparr>"

definition world0 :: world where
  "world0 =
     \<lparr>files = Map.empty,
      zot_item = (\<lambda>k. if k = ''K1'' then Inr item0 else Inl (Exception ''ResourceNotFoundError'' k)),
      calls = [], log = [], slept = 0\<rparr>"

definition metadata0 :: metadata where
  "metadata0 =
     \<lparr>md_title = ''Attention Is All You Need'', md_abstract = [], md_key = ''K1'',
      md_item_type = ''journalArticle'', md_existing_tags = [''NLP''],
      md_url = ''http://example.org/paper'',
      md_pdf_attachment = Some ''http://example.org/paper.pdf''\<rparr>"

text \<open>The same item without URL and without PDF attachment.\<close>

definition metadata1 :: metadata where
  "metadata1 = metadata0\<lparr>md_url := [], md_pdf_attachment := None\<rparr>"




text \<open>An environment without network.\<close>

definition env_down :: env where
  "env_down = env0\<lparr>requests_get := (\<lambda>r. Inl (Exception ''ConnectionError'' ''Connection refused''))\<rparr>"


text \<open>A page of 5000 words, and an environment whose pages have it as body text.\<close>

definition text5000 :: string where
  "text5000 = concat (replicate 5000 ''word '')"

definition env5000 :: env where
  "env5000 = env0\<lparr>soup_select := (\<lambda>html sel. []), soup_body_text := (\<lambda>html. Inr text5000)\<rparr>"



section \<open>Strings: splitting and joining\<close>

lemma split_ws_aux_tokens:
  "\<forall>c \<in> set cur. \<not> isspace c \<Longrightarrow> t \<in> set (split_ws_aux cur s) \<Longrightarrow> token t"
proof (induction s arbitrary: cur)
  case Nil
  then show ?case by (auto simp: token_def list_all_iff split: if_splits)
next
  case (Cons a s)
  show ?case
  proof (cases "isspace a")
    case True
    with Cons.prems have "t = rev cur \<and> cur \<noteq> [] \<or> t \<in> set (split_ws_aux [] s)"
      by (auto split: if_splits)
    then show ?thesis
    proof
      assume "t = rev cur \<and> cur \<noteq> []"
      with Cons.prems(1) show ?thesis by (simp add: token_def list_all_iff)
    next
      assume "t \<in> set (split_ws_aux [] s)"
      with Cons.IH [of "[]"] show ?thesis by simp
    qed
  next
    case False
    with Cons.prems have "t \<in> set (split_ws_aux (a # cur) s)" by simp
    moreover have "\<forall>c \<in> set (a # cur). \<not> isspace c" using False Cons.prems(1) by simp
    ultimately show ?thesis by (rule Cons.IH [rotated])
  qed
qed

lemma split_ws_tokens: "t \<in> set (split_ws s) \<Longrightarrow> token t"
  unfolding split_ws_def using split_ws_aux_tokens [of "[]" t s] by simp

lemma split_ws_aux_run:
  "\<forall>c \<in> set t. \<not> isspace c \<Longrightarrow> split_ws_aux cur (t @ s) = split_ws_aux (rev t @ cur) s"
  by (induction t arbitrary: cur) auto

lemma isspace_space: "isspace CHR '' ''"
  by (simp add: isspace_def)


lemma split_ws_token_cons:
  assumes "token x"
  shows "split_ws_aux [] (x @ CHR '' '' # s) = x # split_ws_aux [] s"
proof -
  have "split_ws_aux [] (x @ CHR '' '' # s) = split_ws_aux (rev x @ []) (CHR '' '' # s)"
    using assms by (intro split_ws_aux_run) (simp add: token_def list_all_iff)
  also have "\<dots> = x # split_ws_aux [] s"
    using assms isspace_space by (simp add: token_def)
  finally show ?thesis .
qed

lemma split_ws_token_last:
  assumes "token x"
  shows "split_ws_aux [] x = [x]"
proof -
  have "split_ws_aux [] (x @ []) = split_ws_aux (rev x @ []) []"
    using assms by (intro split_ws_aux_run) (simp add: token_def list_all_iff)
  then show ?thesis using assms by (simp add: token_def)
qed

lemma split_ws_join:
  "\<forall>t \<in> set ts. token t \<Longrightarrow> split_ws (join '' '' ts) = ts"
proof (induction ts)
  case Nil
  then show ?case by (simp add: split_ws_def)
next
  case (Cons x ts)
  show ?case
  proof (cases ts)
    case Nil
    with Cons.prems show ?thesis by (simp add: split_ws_def split_ws_token_last)
  next
    case (Cons y ys)
    have "split_ws (join '' '' (x # y # ys)) = x # split_ws (join '' '' (y # ys))"
      using Cons.prems by (simp add: split_ws_def split_ws_token_cons)
    with Cons Cons.IH Cons.prems show ?thesis by simp
  qed
qed

lemma first_words:
  "split_ws (join '' '' (take n (split_ws s))) = take n (split_ws s)"
  by (rule split_ws_join) (meson in_set_takeD split_ws_tokens)

section \<open>Strings: lines and stripping\<close>







section \<open>Merging tags into an item\<close>

lemma add_new_tags_append:
  "\<exists>ys. add_new_tags cur ts = cur @ ys \<and> distinct (map tag ys) \<and>
        set (map tag ys) = set ts - set (map tag cur) \<and>
        (\<forall>y \<in> set ys. tag_type y = None)"
proof (induction ts arbitrary: cur)
  case Nil
  then show ?case by simp
next
  case (Cons t ts)
  show ?case
  proof (cases "t \<in> set (map tag cur)")
    case True
    from Cons.IH [of cur] obtain ys where
      "add_new_tags cur ts = cur @ ys" "distinct (map tag ys)"
      "set (map tag ys) = set ts - set (map tag cur)" "\<forall>y \<in> set ys. tag_type y = None"
      by blast
    with True show ?thesis by auto
  next
    case False
    let ?n = "\<lparr>tag = t, tag_type = None\<rparr>"
    from Cons.IH [of "cur @ [?n]"] obtain ys where ys:
      "add_new_tags (cur @ [?n]) ts = (cur @ [?n]) @ ys" "distinct (map tag ys)"
      "set (map tag ys) = set ts - set (map tag (cur @ [?n]))" "\<forall>y \<in> set ys. tag_type y = None"
      by blast
    have "add_new_tags cur (t # ts) = cur @ (?n # ys)"
      using False ys(1) by simp
    moreover have "distinct (map tag (?n # ys))"
      using ys(2,3) by auto
    moreover have "set (map tag (?n # ys)) = set (t # ts) - set (map tag cur)"
      using False ys(3) by auto
    moreover have "\<forall>y \<in> set (?n # ys). tag_type y = None"
      using ys(4) by simp
    ultimately show ?thesis by blast
  qed
qed

lemma add_new_tags_present: "set ts \<subseteq> set (map tag cur) \<Longrightarrow> add_new_tags cur ts = cur"
  by (induction ts arbitrary: cur) auto

lemma set_add_new_tags: "set (map tag (add_new_tags cur ts)) = set (map tag cur) \<union> set ts"
proof -
  from add_new_tags_append [of cur ts] obtain ys where
    "add_new_tags cur ts = cur @ ys" "set (map tag ys) = set ts - set (map tag cur)"
    by blast
  then show ?thesis by auto
qed

lemma add_new_tags_idem: "add_new_tags (add_new_tags cur ts) ts = add_new_tags cur ts"
  using set_add_new_tags [of cur ts] by (intro add_new_tags_present) auto

lemma update_item_tags_twice:
  "zot_item (update_item_tags tg e k ts (update_item_tags tg e k ts w)) =
   zot_item (update_item_tags tg e k ts w)"
proof (cases "zot_item w k")
  case (Inl x)
  then show ?thesis
    by (simp add: update_item_tags_def logger_def record_call_def)
next
  case (Inr it)
  let ?it1 = "it\<lparr>data := (data it)\<lparr>tags := add_new_tags (tags (data it)) ts\<rparr>\<rparr>"
  show ?thesis
  proof (cases "zot_update_error e ?it1")
    case (Some x)
    with Inr show ?thesis
      by (simp add: update_item_tags_def logger_def record_call_def Let_def)
  next
    case None
    show ?thesis
    proof (cases "k = item_key it")
      case True
      with Inr None show ?thesis
        by (simp add: update_item_tags_def logger_def record_call_def Let_def add_new_tags_idem)
    next
      case False
      with Inr None show ?thesis
        by (simp add: update_item_tags_def logger_def record_call_def Let_def)
    qed
  qed
qed

section \<open>Claims about the item updater\<close>

text \<open>
  Claim C3. Applying the same suggested-tag list a second time changes nothing: the
  merged tag list is a fixed point of the merge, its tags are the tags present
  before together with the suggested ones, and a second call of
  \<open>update_item_tags\<close> leaves the catalog as the first call left it. When
  every suggested tag is already present, the tag list comes back as it is. Tags
  are compared as strings, so only an equal string counts as present.
\<close>

theorem update_item_tags_idempotent:
  "add_new_tags (add_new_tags current_tags new_tags) new_tags = add_new_tags current_tags new_tags \<and>
   set (map tag (add_new_tags (add_new_tags current_tags new_tags) new_tags)) =
     set (map tag current_tags) \<union> set new_tags \<and>
   zot_item (update_item_tags tg e k new_tags (update_item_tags tg e k new_tags w)) =
     zot_item (update_item_tags tg e k new_tags w) \<and>
   (set new_tags \<subseteq> set (map tag current_tags) \<longrightarrow>
      add_new_tags current_tags new_tags = current_tags)"
  by (simp only: add_new_tags_idem set_add_new_tags update_item_tags_twice)
     (simp add: add_new_tags_present)

theorem update_item_tags_idempotent_witness:
  "add_new_tags [\<lparr>tag = ''LLM'', tag_type = Some 1\<rparr>] [''LLM''] = [\<lparr>tag = ''LLM'', tag_type = Some 1\<rparr>] \<and>
   add_new_tags (add_new_tags [\<lparr>tag = ''LLM'', tag_type = Some 1\<rparr>] [''llm'', ''LLM'']) [''llm'', ''LLM''] =
     [\<lparr>tag = ''LLM'', tag_type = Some 1\<rparr>, \<lparr>tag = ''llm'', tag_type = None\<rparr>]"
  using update_item_tags_idempotent [of "[\<lparr>tag = ''LLM'', tag_type = Some 1\<rparr>]" "[''LLM'']"]
        update_item_tags_idempotent [of "[\<lparr>tag = ''LLM'', tag_type = Some 1\<rparr>]" "[''llm'', ''LLM'']"]
  by simp

text \<open>
  Claim C10. The item handed to \<open>zot.update_item\<close> is the fetched item with only
  its tag list changed: the entries that were there come first, in their order, and
  the new entries follow, one for each suggested tag that was not present, each
  with the single member \<open>tag\<close>.
\<close>

theorem update_item_tags_frame:
  assumes "zot_item w k = Inr it"
  shows "\<exists>new_entries.
           calls (update_item_tags tg e k new_tags w) =
             calls w @ [ZotItem k,
                        ZotUpdateItem (it\<lparr>data := (data it)\<lparr>tags := tags (data it) @ new_entries\<rparr>\<rparr>)] \<and>
           distinct (map tag new_entries) \<and>
           set (map tag new_entries) = set new_tags - set (map tag (tags (data it))) \<and>
           list_all (\<lambda>y. tag_type y = None) new_entries"
proof -
  from add_new_tags_append [of "tags (data it)" new_tags] obtain ys where ys:
    "add_new_tags (tags (data it)) new_tags = tags (data it) @ ys" "distinct (map tag ys)"
    "set (map tag ys) = set new_tags - set (map tag (tags (data it)))"
    "\<forall>y \<in> set ys. tag_type y = None"
    by blast
  have "calls (update_item_tags tg e k new_tags w) =
          calls w @ [ZotItem k,
                     ZotUpdateItem (it\<lparr>data := (data it)\<lparr>tags := tags (data it) @ ys\<rparr>\<rparr>)]"
    using assms ys(1)
    by (simp add: update_item_tags_def logger_def record_call_def Let_def split: option.split)
  with ys(2,3,4) show ?thesis
    by (auto simp: list_all_iff)
qed

theorem update_item_tags_frame_witness:
  "zot_item world0 ''K1'' = Inr item0 \<and>
   (\<exists>new_entries.
      calls (update_item_tags tagger0 env0 ''K1'' [''NLP'', ''Transformers''] world0) =
        [ZotItem ''K1'',
         ZotUpdateItem (item0\<lparr>data := (data item0)\<lparr>tags := tags (data item0) @ new_entries\<rparr>\<rparr>)] \<and>
      set (map tag new_entries) = {''Transformers''})"
proof -
  have h: "zot_item world0 ''K1'' = Inr item0"
    by (simp add: world0_def)
  from update_item_tags_frame [OF h, of tagger0 env0 "[''NLP'', ''Transformers'']"]
  show ?thesis
    using h by (auto simp: world0_def item0_def)
qed

section \<open>Claims about the content extractor\<close>

lemma calls_extract_text_from_webpage:
  "calls (snd (extract_text_from_webpage tg e u has_pdf w)) =
   calls w @ (if url_always (options tg) \<or> (url_fallback (options tg) \<and> \<not> has_pdf)
              then [HttpGet (webpage_request u)] else [])"
  by (simp add: extract_text_from_webpage_def record_call_def logger_def Let_def split: sum.split)

lemma calls_extract_text_from_pdf:
  "calls (snd (extract_text_from_pdf tg e u w)) =
   calls w @ (if parse_pdf (options tg) then [HttpGet (pdf_request u)] else [])"
  by (simp add: extract_text_from_pdf_def record_call_def logger_def Let_def split: sum.split)

lemma calls_content_parts:
  "calls (snd (content_parts tg e md w)) =
   calls w @
   (if md_url md \<noteq> [] \<and>
       (url_always (options tg) \<or>
        (url_fallback (options tg) \<and> (md_pdf_attachment md = None \<or> md_pdf_attachment md = Some [])))
    then [HttpGet (webpage_request (md_url md))] else []) @
   (case md_pdf_attachment md of
      None \<Rightarrow> []
    | Some u \<Rightarrow> if u \<noteq> [] \<and> parse_pdf (options tg) then [HttpGet (pdf_request u)] else [])"
proof -
  define hp where "hp = (case md_pdf_attachment md of None \<Rightarrow> False | Some u \<Rightarrow> u \<noteq> [])"
  obtain r1 w1 where a: "extract_text_from_webpage tg e (md_url md) hp w = (r1, w1)"
    by (cases "extract_text_from_webpage tg e (md_url md) hp w")
  have "calls (snd (r1, w1)) = calls w @ (if url_always (options tg) \<or> (url_fallback (options tg) \<and> \<not> hp)
              then [HttpGet (webpage_request (md_url md))] else [])"
    unfolding a [symmetric] by (rule calls_extract_text_from_webpage)
  then have c1: "calls w1 = calls w @ (if url_always (options tg) \<or> (url_fallback (options tg) \<and> \<not> hp)
              then [HttpGet (webpage_request (md_url md))] else [])"
    by simp
  have hp: "\<not> hp \<longleftrightarrow> md_pdf_attachment md = None \<or> md_pdf_attachment md = Some []"
    by (simp add: hp_def split: option.split)
  have cp: "snd (content_parts tg e md w) =
            (let w1 = (if md_url md \<noteq> [] then snd (extract_text_from_webpage tg e (md_url md) hp w) else w)
             in case md_pdf_attachment md of
                  None \<Rightarrow> w1
                | Some u \<Rightarrow> if u \<noteq> [] \<and> parse_pdf (options tg)
                            then snd (extract_text_from_pdf tg e u w1) else w1)"
    by (simp add: content_parts_def Let_def hp_def split: option.split prod.split)
  show ?thesis
  proof (cases "md_url md = []")
    case True
    then show ?thesis
      unfolding cp by (simp add: calls_extract_text_from_pdf split: option.split)
  next
    case False
    then show ?thesis
      unfolding cp using hp by (simp add: a c1 calls_extract_text_from_pdf split: option.split)
  qed
qed

text \<open>
  Claim C2. \<open>extract_text_from_webpage\<close> sends a request for the URL it is
  given (with the browser-like header and the timeout of ten seconds) exactly when
  \<open>url_always\<close> is set, or \<open>url_fallback\<close> is set and the item has no PDF;
  otherwise it returns \<open>None\<close> and leaves the world as it is. When the request
  raises, the error is logged and \<open>None\<close> is returned. With \<open>url_fallback\<close>
  alone and a PDF attachment, gathering the content parts requests at most the
  URL of the PDF, never the URL of the item.
\<close>

theorem extract_text_from_webpage_policy:
  "(url_always (options tg) \<or> (url_fallback (options tg) \<and> \<not> has_pdf) \<longrightarrow>
      calls (snd (extract_text_from_webpage tg e u has_pdf w)) =
        calls w @
        [HttpGet
          \<lparr>req_url = u,
           req_headers =
             [(''User-Agent'', ''Mozilla/5.0 (Windows NT 10.0; Win64; x64) AppleWebKit/537.36'')],
           req_timeout = Some 10\<rparr>]) \<and>
   (\<not> (url_always (options tg) \<or> (url_fallback (options tg) \<and> \<not> has_pdf)) \<longrightarrow>
      extract_text_from_webpage tg e u has_pdf w = (None, w)) \<and>
   (url_fallback (options tg) \<and> \<not> url_always (options tg) \<and>
    md_pdf_attachment md = Some pdf_url \<and> pdf_url \<noteq> [] \<longrightarrow>
      calls (snd (content_parts tg e md w)) =
        calls w @
        (if parse_pdf (options tg)
         then [HttpGet \<lparr>req_url = pdf_url, req_headers = [], req_timeout = None\<rparr>]
         else [])) \<and>
   ((url_always (options tg) \<or> (url_fallback (options tg) \<and> \<not> has_pdf)) \<and>
    requests_get e
          \<lparr>req_url = u,
           req_headers =
             [(''User-Agent'', ''Mozilla/5.0 (Windows NT 10.0; Win64; x64) AppleWebKit/537.36'')],
           req_timeout = Some 10\<rparr> = Inl x \<longrightarrow>
      extract_text_from_webpage tg e u has_pdf w =
        (None,
         logger ERROR (''Error extracting webpage content: '' @ exn_str x)
           (w\<lparr>calls := calls w @
              [HttpGet
          \<lparr>req_url = u,
           req_headers =
             [(''User-Agent'', ''Mozilla/5.0 (Windows NT 10.0; Win64; x64) AppleWebKit/537.36'')],
           req_timeout = Some 10\<rparr>]\<rparr>)))"
proof (intro conjI impI)
  assume "url_always (options tg) \<or> (url_fallback (options tg) \<and> \<not> has_pdf)"
  then show "calls (snd (extract_text_from_webpage tg e u has_pdf w)) =
        calls w @
        [HttpGet
          \<lparr>req_url = u,
           req_headers =
             [(''User-Agent'', ''Mozilla/5.0 (Windows NT 10.0; Win64; x64) AppleWebKit/537.36'')],
           req_timeout = Some 10\<rparr>]"
    by (simp add: calls_extract_text_from_webpage webpage_request_def)
next
  assume "\<not> (url_always (options tg) \<or> (url_fallback (options tg) \<and> \<not> has_pdf))"
  then show "extract_text_from_webpage tg e u has_pdf w = (None, w)"
    by (simp add: extract_text_from_webpage_def)
next
  assume "url_fallback (options tg) \<and> \<not> url_always (options tg) \<and>
          md_pdf_attachment md = Some pdf_url \<and> pdf_url \<noteq> []"
  then show "calls (snd (content_parts tg e md w)) =
        calls w @
        (if parse_pdf (options tg)
         then [HttpGet \<lparr>req_url = pdf_url, req_headers = [], req_timeout = None\<rparr>]
         else [])"
    by (simp add: calls_content_parts pdf_request_def)
next
  assume "(url_always (options tg) \<or> (url_fallback (options tg) \<and> \<not> has_pdf)) \<and>
    requests_get e
          \<lparr>req_url = u,
           req_headers =
             [(''User-Agent'', ''Mozilla/5.0 (Windows NT 10.0; Win64; x64) AppleWebKit/537.36'')],
           req_timeout = Some 10\<rparr> = Inl x"
  then show "extract_text_from_webpage tg e u has_pdf w =
        (None,
         logger ERROR (''Error extracting webpage content: '' @ exn_str x)
           (w\<lparr>calls := calls w @
              [HttpGet
          \<lparr>req_url = u,
           req_headers =
             [(''User-Agent'', ''Mozilla/5.0 (Windows NT 10.0; Win64; x64) AppleWebKit/537.36'')],
           req_timeout = Some 10\<rparr>]\<rparr>))"
    by (auto simp: extract_text_from_webpage_def webpage_content_def webpage_request_def
          record_call_def Let_def)
qed

theorem extract_text_from_webpage_policy_witness:
  "calls (snd (extract_text_from_webpage tagger0 env0 ''http://example.org/paper'' False world0)) =
     [HttpGet
          \<lparr>req_url = ''http://example.org/paper'',
           req_headers =
             [(''User-Agent'', ''Mozilla/5.0 (Windows NT 10.0; Win64; x64) AppleWebKit/537.36'')],
           req_timeout = Some 10\<rparr>] \<and>
   extract_text_from_webpage tagger0 env0 ''http://example.org/paper'' True world0 = (None, world0) \<and>
   calls (snd (content_parts tagger0 env0 metadata0 world0)) =
     [HttpGet \<lparr>req_url = ''http://example.org/paper.pdf'', req_headers = [], req_timeout = None\<rparr>] \<and>
   fst (extract_text_from_webpage tagger0 env_down ''http://example.org/paper'' False world0) = None \<and>
   log (snd (extract_text_from_webpage tagger0 env_down ''http://example.org/paper'' False world0)) =
     [(ERROR, ''Error extracting webpage content: Connection refused'')]"
proof -
  have d: "requests_get env_down
          \<lparr>req_url = ''http://example.org/paper'',
           req_headers =
             [(''User-Agent'', ''Mozilla/5.0 (Windows NT 10.0; Win64; x64) AppleWebKit/537.36'')],
           req_timeout = Some 10\<rparr> = Inl (Exception ''ConnectionError'' ''Connection refused'')"
    by (simp add: env_down_def)
  show ?thesis
    using extract_text_from_webpage_policy
          [of tagger0 False env0 "''http://example.org/paper''" world0 metadata0
              "''http://example.org/paper.pdf''"]
        extract_text_from_webpage_policy
          [of tagger0 True env0 "''http://example.org/paper''" world0 metadata0
              "''http://example.org/paper.pdf''"]
        extract_text_from_webpage_policy
          [of tagger0 False env_down "''http://example.org/paper''" world0 metadata0
              "''http://example.org/paper.pdf''" "Exception ''ConnectionError'' ''Connection refused''"]
        d
    by (simp add: tagger0_def options0_def world0_def metadata0_def logger_def)
qed

lemma split_ws_replicate: "split_ws (concat (replicate n ''word '')) = replicate n ''word''"
proof (induction n)
  case 0
  then show ?case by (simp add: split_ws_def)
next
  case (Suc n)
  have "token ''word''" by (simp add: token_def isspace_def)
  then have "split_ws_aux [] (''word'' @ CHR '' '' # concat (replicate n ''word '')) =
             ''word'' # split_ws_aux [] (concat (replicate n ''word ''))"
    by (rule split_ws_token_cons)
  with Suc show ?case by (simp add: split_ws_def)
qed

lemma excerpt_tokens:
  "split_ws (join '' '' (take 2000 (split_ws s))) = take 2000 (split_ws s) \<and>
   length (split_ws (join '' '' (take 2000 (split_ws s)))) = min (length (split_ws s)) 2000"
  by (simp add: first_words)

text \<open>
  Claim C7. When the text of a PDF or of a webpage has been extracted, the excerpt
  returned consists of the first \<open>min n 2000\<close> whitespace-separated tokens of
  that text, in their order, \<open>n\<close> being the number of tokens of the text; a text
  of 5000 tokens gives an excerpt of exactly 2000 tokens.
\<close>

theorem excerpt_first_2000_tokens:
  "(parse_pdf (options tg) \<and> pdf_text e pdf_url = Inr extracted \<longrightarrow>
      (\<exists>excerpt. fst (extract_text_from_pdf tg e pdf_url w) = Some excerpt \<and>
         split_ws excerpt = take 2000 (split_ws extracted) \<and>
         length (split_ws excerpt) = min (length (split_ws extracted)) 2000 \<and>
         (length (split_ws extracted) = 5000 \<longrightarrow> length (split_ws excerpt) = 2000))) \<and>
   ((url_always (options tg) \<or> (url_fallback (options tg) \<and> \<not> has_pdf)) \<and>
    webpage_content e u = Inr content \<longrightarrow>
      (\<exists>excerpt. fst (extract_text_from_webpage tg e u has_pdf w) = Some excerpt \<and>
         split_ws excerpt = take 2000 (split_ws content) \<and>
         length (split_ws excerpt) = min (length (split_ws content)) 2000 \<and>
         (length (split_ws content) = 5000 \<longrightarrow> length (split_ws excerpt) = 2000)))"
proof (intro conjI impI)
  assume "parse_pdf (options tg) \<and> pdf_text e pdf_url = Inr extracted"
  then have "fst (extract_text_from_pdf tg e pdf_url w) = Some (join '' '' (take 2000 (split_ws extracted)))"
    by (simp add: extract_text_from_pdf_def Let_def)
  with excerpt_tokens [of extracted]
  show "\<exists>excerpt. fst (extract_text_from_pdf tg e pdf_url w) = Some excerpt \<and>
         split_ws excerpt = take 2000 (split_ws extracted) \<and>
         length (split_ws excerpt) = min (length (split_ws extracted)) 2000 \<and>
         (length (split_ws extracted) = 5000 \<longrightarrow> length (split_ws excerpt) = 2000)"
    by auto
next
  assume "(url_always (options tg) \<or> (url_fallback (options tg) \<and> \<not> has_pdf)) \<and>
          webpage_content e u = Inr content"
  then have "fst (extract_text_from_webpage tg e u has_pdf w) =
             Some (join '' '' (take 2000 (split_ws content)))"
    by (auto simp: extract_text_from_webpage_def Let_def)
  with excerpt_tokens [of content]
  show "\<exists>excerpt. fst (extract_text_from_webpage tg e u has_pdf w) = Some excerpt \<and>
         split_ws excerpt = take 2000 (split_ws content) \<and>
         length (split_ws excerpt) = min (length (split_ws content)) 2000 \<and>
         (length (split_ws content) = 5000 \<longrightarrow> length (split_ws excerpt) = 2000)"
    by auto
qed

lemma pdf_text_env0: "pdf_text env0 u = Inr (''alpha beta'' @ [LF] @ ''gamma'' @ [LF])"
  by (simp add: pdf_text_def env0_def)

lemma webpage_content_env5000: "webpage_content env5000 u = Inr text5000"
proof -
  have "text5000 \<noteq> []" by (simp add: text5000_def)
  then show ?thesis by (simp add: webpage_content_def env5000_def env0_def)
qed

theorem excerpt_first_2000_tokens_witness:
  "(\<exists>excerpt. fst (extract_text_from_pdf tagger0 env0 ''http://example.org/paper.pdf'' world0) = Some excerpt \<and>
      split_ws excerpt = [''alpha'', ''beta'', ''gamma'']) \<and>
   length (split_ws text5000) = 5000 \<and>
   (\<exists>excerpt. fst (extract_text_from_webpage tagger0 env5000 ''http://example.org/paper'' False world0) = Some excerpt \<and>
      length (split_ws excerpt) = 2000)"
proof -
  have p: "parse_pdf (options tagger0) \<and>
           pdf_text env0 ''http://example.org/paper.pdf'' = Inr (''alpha beta'' @ [LF] @ ''gamma'' @ [LF])"
    by (simp add: tagger0_def options0_def pdf_text_env0)
  have t: "split_ws (''alpha beta'' @ [LF] @ ''gamma'' @ [LF]) = [''alpha'', ''beta'', ''gamma'']"
    by (simp add: split_ws_def isspace_def LF_def)
  have q: "(url_always (options tagger0) \<or> (url_fallback (options tagger0) \<and> \<not> False)) \<and>
           webpage_content env5000 ''http://example.org/paper'' = Inr text5000"
    by (simp add: tagger0_def options0_def webpage_content_env5000)
  have n: "length (split_ws text5000) = 5000"
    by (simp add: text5000_def split_ws_replicate)
  from excerpt_first_2000_tokens
         [where tg = tagger0 and e = env0 and pdf_url = "''http://example.org/paper.pdf''"
            and extracted = "''alpha beta'' @ [LF] @ ''gamma'' @ [LF]" and w = world0,
          THEN conjunct1, THEN mp, OF p]
  obtain x1 where x1:
    "fst (extract_text_from_pdf tagger0 env0 ''http://example.org/paper.pdf'' world0) = Some x1"
    "split_ws x1 = take 2000 (split_ws (''alpha beta'' @ [LF] @ ''gamma'' @ [LF]))"
    by blast
  from excerpt_first_2000_tokens
         [where tg = tagger0 and e = env5000 and has_pdf = False
            and u = "''http://example.org/paper''" and content = text5000 and w = world0,
          THEN conjunct2, THEN mp, OF q]
  obtain x2 where x2:
    "fst (extract_text_from_webpage tagger0 env5000 ''http://example.org/paper'' False world0) = Some x2"
    "length (split_ws text5000) = 5000 \<longrightarrow> length (split_ws x2) = 2000"
    by blast
  have "split_ws x1 = [''alpha'', ''beta'', ''gamma'']"
    using x1(2) unfolding t by simp
  moreover have "length (split_ws x2) = 2000"
    using x2(2) n by simp
  ultimately show ?thesis
    using x1(1) x2(1) n by blast
qed

section \<open>Claims about start-up\<close>

lemma missing_vars_filter:
  "missing_vars e =
     filter (\<lambda>k. falsy (if k = ''ZOTERO_LIBRARY_TYPE'' \<and> getenv e k = None then Some ''group''
                         else getenv e k))
       [''ZOTERO_LIBRARY_ID'', ''ZOTERO_LIBRARY_TYPE'', ''ZOTERO_API_KEY'', ''ANTHROPIC_API_KEY'']"
  by (simp add: missing_vars_def required_vars_def falsy_def split: option.split)

text \<open>
  Claim C5. When the library identifier, the catalog key or the key of the language
  model has no value (unset or empty), constructing the tagger raises
  \<open>ValueError\<close> and leaves the world untouched, so no catalog call has been made.
  The message lists, in the order of the dictionary, every one of the four
  variables whose value is missing, the library type counting with its default.
\<close>

theorem init_missing_environment:
  assumes "falsy (getenv e ''ZOTERO_LIBRARY_ID'') \<or> falsy (getenv e ''ZOTERO_API_KEY'') \<or>
           falsy (getenv e ''ANTHROPIC_API_KEY'')"
  shows "ZoteroTagger_init e opts w =
           (Inl (Exception ''ValueError''
                  (''Missing environment variables: '' @ join '', '' (missing_vars e))), w) \<and>
         missing_vars e =
           filter (\<lambda>k. falsy (if k = ''ZOTERO_LIBRARY_TYPE'' \<and> getenv e k = None then Some ''group''
                               else getenv e k))
             [''ZOTERO_LIBRARY_ID'', ''ZOTERO_LIBRARY_TYPE'', ''ZOTERO_API_KEY'', ''ANTHROPIC_API_KEY''] \<and>
         missing_vars e \<noteq> []"
proof -
  have "missing_vars e \<noteq> []"
    using assms unfolding missing_vars_filter by (auto simp: falsy_def)
  then show ?thesis
    using missing_vars_filter [of e] by (simp add: ZoteroTagger_init_def Let_def)
qed

theorem init_missing_environment_witness:
  "ZoteroTagger_init env0 options0 world0 =
     (Inl (Exception ''ValueError'' ''Missing environment variables: ANTHROPIC_API_KEY''), world0) \<and>
   ZoteroTagger_init (env0\<lparr>getenv := [''ZOTERO_LIBRARY_TYPE'' \<mapsto> ''user'', ''ZOTERO_API_KEY'' \<mapsto> ''k'']\<rparr>)
       options0 world0 =
     (Inl (Exception ''ValueError''
            ''Missing environment variables: ZOTERO_LIBRARY_ID, ANTHROPIC_API_KEY''), world0)"
  using init_missing_environment [of env0 options0 world0]
        init_missing_environment
          [of "env0\<lparr>getenv := [''ZOTERO_LIBRARY_TYPE'' \<mapsto> ''user'', ''ZOTERO_API_KEY'' \<mapsto> ''k'']\<rparr>"
              options0 world0]
  by (simp add: env0_def falsy_def)

section \<open>Claims about the tag suggester\<close>






section \<open>Claims about the prompt\<close>

lemma fst_extract_text_from_pdf:
  "fst (extract_text_from_pdf tg e u w) =
     (if \<not> parse_pdf (options tg) then None
      else case pdf_text e u of
             Inl x \<Rightarrow> None
           | Inr extracted \<Rightarrow> Some (join '' '' (take 2000 (split_ws extracted))))"
  by (simp add: extract_text_from_pdf_def Let_def split: sum.split)

lemma fst_extract_text_from_webpage:
  "fst (extract_text_from_webpage tg e u hp w) =
     (if \<not> (url_always (options tg) \<or> (url_fallback (options tg) \<and> \<not> hp)) then None
      else case webpage_content e u of
             Inl x \<Rightarrow> None
           | Inr content \<Rightarrow> Some (join '' '' (take 2000 (split_ws content))))"
  by (simp add: extract_text_from_webpage_def Let_def split: sum.split)

lemma length_part: "length (part label x) = (if available x then 1 else 0)"
  by (simp add: part_def available_def split: option.split)

lemma fst_content_parts:
  "fst (content_parts tg e md w) =
     (if md_title md \<noteq> [] then [''Title: '' @ md_title md] else []) @
     (if md_abstract md \<noteq> [] then [''Abstract: '' @ md_abstract md] else []) @
     part ''Webpage content: '' (webpage_excerpt tg e md w) @
     part ''PDF content: '' (pdf_excerpt tg e md w)"
proof -
  have web: "fst (if md_url md \<noteq> []
                  then extract_text_from_webpage tg e (md_url md)
                         (case md_pdf_attachment md of None \<Rightarrow> False | Some u \<Rightarrow> u \<noteq> []) w
                  else (None, w)) = webpage_excerpt tg e md w"
    by (simp add: webpage_excerpt_def)
  have pdf: "fst (case md_pdf_attachment md of
                    None \<Rightarrow> (None, w1)
                  | Some u \<Rightarrow> if u \<noteq> [] \<and> parse_pdf (options tg)
                              then extract_text_from_pdf tg e u w1 else (None, w1)) =
             pdf_excerpt tg e md w" for w1
    by (simp add: pdf_excerpt_def fst_extract_text_from_pdf split: option.split)
  show ?thesis
    unfolding content_parts_def Let_def split_def fst_conv web pdf part_def
    by (simp only: append_assoc)
qed

lemma length_content_parts:
  "length (fst (content_parts tg e md w)) = available_count tg e md w"
  by (simp add: fst_content_parts length_part available_count_def available_fields_def)


lemma part_unavailable: "\<not> available x \<Longrightarrow> part label x = []"
  by (cases x) (auto simp: part_def available_def)

lemma sole_title:
  assumes "md_title md \<noteq> []" "available_count tg e md w = 1"
  shows "fst (content_parts tg e md w) = [''Title: '' @ md_title md]"
proof -
  from assms have "md_abstract md = [] \<and> \<not> available (webpage_excerpt tg e md w) \<and>
                   \<not> available (pdf_excerpt tg e md w)"
    by (simp add: available_count_def available_fields_def split: if_splits)
  with assms(1) show ?thesis
    by (simp add: fst_content_parts part_unavailable)
qed

lemma build_prompt_title_only:
  assumes "md_title md \<noteq> []" "available_count tg e md w = 1"
  shows "build_prompt e tg md (fst (content_parts tg e md w)) =
         title_only_prompt (repr_list e (sorted_list_of_set (existing_tags tg)))
           (''Title: '' @ md_title md)"
  using assms(1) by (simp add: sole_title [OF assms] build_prompt_def Let_def)

lemma build_prompt_multi_field:
  assumes "\<not> (md_title md \<noteq> [] \<and> available_count tg e md w = 1)"
  shows "build_prompt e tg md (fst (content_parts tg e md w)) =
         multi_field_prompt (repr_list e (sorted_list_of_set (existing_tags tg)))
           (fst (content_parts tg e md w))"
proof (cases "md_title md = []")
  case True
  then show ?thesis
    by (simp add: build_prompt_def Let_def split: list.split)
next
  case False
  with assms have "length (fst (content_parts tg e md w)) \<noteq> 1"
    by (simp add: length_content_parts)
  then show ?thesis
    by (cases "fst (content_parts tg e md w)") (auto simp: build_prompt_def Let_def split: list.split)
qed

lemma prompts_differ: "title_only_prompt v p \<noteq> multi_field_prompt v' ps"
proof
  assume "title_only_prompt v p = multi_field_prompt v' ps"
  then have "take 8 (title_only_prompt v p) = take 8 (multi_field_prompt v' ps)"
    by simp
  then show False
    by (simp add: title_only_prompt_def multi_field_prompt_def)
qed

lemma calls_save_existing_tags: "calls (snd (save_existing_tags e tg w)) = calls w"
  by (simp add: save_existing_tags_def logger_def Let_def split: option.split prod.split)

lemma calls_suggest_try:
  "calls (snd (snd (suggest_try e tg p w))) = calls w @ [MessagesCreate (suggestion_request p)]"
proof -
  have s: "calls w2 = calls w1" if "save_existing_tags e tg1 w1 = (r, w2)" for tg1 w1 r w2
    using calls_save_existing_tags [of e tg1 w1] that by simp
  show ?thesis
    by (auto simp: suggest_try_def Let_def record_call_def s
             split: sum.split list.split block.split prod.split option.split)
qed

lemma calls_get_claude_suggestions:
  "calls (snd (snd (get_claude_suggestions e tg md w))) =
     calls (snd (content_parts tg e md w)) @
     [MessagesCreate (suggestion_request (build_prompt e tg md (fst (content_parts tg e md w))))]"
proof -
  obtain parts w1 where cp: "content_parts tg e md w = (parts, w1)"
    by (cases "content_parts tg e md w")
  obtain r tg1 w2 where st: "suggest_try e tg (build_prompt e tg md parts) w1 = (r, tg1, w2)"
    by (cases "suggest_try e tg (build_prompt e tg md parts) w1")
  have "calls w2 = calls w1 @ [MessagesCreate (suggestion_request (build_prompt e tg md parts))]"
    using calls_suggest_try [of e tg "build_prompt e tg md parts" w1] st by simp
  then show ?thesis
    by (cases r) (simp_all add: get_claude_suggestions_def cp st logger_def)
qed


text \<open>
  Claim C9. The content parts are, in this order, the title, the abstract, the
  webpage excerpt and the PDF excerpt, each under its label and only when it is
  available, so there are as many parts as available fields. The prompt sent to the
  language model is the title-only one exactly when the title is the only available
  field; in every other case, in particular with two or more fields, it is the
  multi-field one. Both prompts are given in full: they carry the same three lines
  of rules and the same closing line, the title-only one has in addition the line
  with the instruction to be conservative, and the multi-field one lists all the
  parts, one per line. The two prompts are never the same string.
\<close>

theorem prompt_variant:
  "length (fst (content_parts tg e md w)) = available_count tg e md w \<and>
   (md_title md \<noteq> [] \<and> available_count tg e md w = 1 \<longrightarrow>
      build_prompt e tg md (fst (content_parts tg e md w)) =
        title_only_prompt (repr_list e (sorted_list_of_set (existing_tags tg)))
          (''Title: '' @ md_title md)) \<and>
   (\<not> (md_title md \<noteq> [] \<and> available_count tg e md w = 1) \<longrightarrow>
      build_prompt e tg md (fst (content_parts tg e md w)) =
        multi_field_prompt (repr_list e (sorted_list_of_set (existing_tags tg)))
          (fst (content_parts tg e md w))) \<and>
   (2 \<le> available_count tg e md w \<longrightarrow>
      build_prompt e tg md (fst (content_parts tg e md w)) =
        multi_field_prompt (repr_list e (sorted_list_of_set (existing_tags tg)))
          (fst (content_parts tg e md w))) \<and>
   title_only_prompt v p \<noteq> multi_field_prompt v' ps \<and>
   (\<exists>rest.
      title_only_prompt v p =
        ''Please suggest 3-5 relevant tags for this document based only on its title.'' @ [LF] @
        prompt_rules v @ indent @ conservative_instruction @ [LF] @ rest \<and>
      multi_field_prompt v [p] =
        ''Please analyze this document and suggest 3-5 relevant tags.'' @ [LF] @
        prompt_rules v @ rest) \<and>
   fst (content_parts tg e md w) =
     (if md_title md \<noteq> [] then [''Title: '' @ md_title md] else []) @
     (if md_abstract md \<noteq> [] then [''Abstract: '' @ md_abstract md] else []) @
     (case webpage_excerpt tg e md w of
        None \<Rightarrow> []
      | Some c \<Rightarrow> if c \<noteq> [] then [''Webpage content: '' @ c] else []) @
     (case pdf_excerpt tg e md w of
        None \<Rightarrow> []
      | Some c \<Rightarrow> if c \<noteq> [] then [''PDF content: '' @ c] else []) \<and>
   title_only_prompt v p =
        ''Please suggest 3-5 relevant tags for this document based only on its title.'' @ [CHR 0x0A] @
        replicate 12 CHR '' '' @ ''Apply suitable tags from this existing set: '' @ v @ [CHR 0x0A] @
        replicate 12 CHR '' '' @ ''Create new tags if one of the central concepts from the paper is not among the existing tags. The document is already from an AI/ML collection, so refrain from setting generic tags like 'Machine Learning' or 'Computer Science'. '' @ [CHR 0x0A] @
        replicate 12 CHR '' '' @ ''Tags should be in Capital Case with spaces as separators (e.g., LLM Jailbreaking, Protein Design, ...)'' @ [CHR 0x0A] @
        replicate 12 CHR '' '' @ ''Be conservative with tag suggestions when working with title only.'' @ [CHR 0x0A] @
        [CHR 0x0A] @
        replicate 12 CHR '' '' @ p @ [CHR 0x0A] @
        [CHR 0x0A] @
        replicate 12 CHR '' '' @ ''Please respond with ONLY the tags, one per line, nothing else.'' \<and>
   multi_field_prompt v ps =
        ''Please analyze this document and suggest 3-5 relevant tags.'' @ [CHR 0x0A] @
        replicate 12 CHR '' '' @ ''Apply suitable tags from this existing set: '' @ v @ [CHR 0x0A] @
        replicate 12 CHR '' '' @ ''Create new tags if one of the central concepts from the paper is not among the existing tags. The document is already from an AI/ML collection, so refrain from setting generic tags like 'Machine Learning' or 'Computer Science'. '' @ [CHR 0x0A] @
        replicate 12 CHR '' '' @ ''Tags should be in Capital Case with spaces as separators (e.g., LLM Jailbreaking, Protein Design, ...)'' @ [CHR 0x0A] @
        [CHR 0x0A] @
        replicate 12 CHR '' '' @ join [CHR 0x0A] ps @ [CHR 0x0A] @
        [CHR 0x0A] @
        replicate 12 CHR '' '' @ ''Please respond with ONLY the tags, one per line, nothing else.'' \<and>
   calls (snd (snd (get_claude_suggestions e tg md w))) =
     calls (snd (content_parts tg e md w)) @
     [MessagesCreate (suggestion_request (build_prompt e tg md (fst (content_parts tg e md w))))]"
proof (intro conjI impI)
  show "length (fst (content_parts tg e md w)) = available_count tg e md w"
    by (rule length_content_parts)
next
  assume "md_title md \<noteq> [] \<and> available_count tg e md w = 1"
  then show "build_prompt e tg md (fst (content_parts tg e md w)) =
        title_only_prompt (repr_list e (sorted_list_of_set (existing_tags tg)))
          (''Title: '' @ md_title md)"
    by (simp add: build_prompt_title_only)
next
  assume "\<not> (md_title md \<noteq> [] \<and> available_count tg e md w = 1)"
  then show "build_prompt e tg md (fst (content_parts tg e md w)) =
        multi_field_prompt (repr_list e (sorted_list_of_set (existing_tags tg)))
          (fst (content_parts tg e md w))"
    by (rule build_prompt_multi_field)
next
  assume "2 \<le> available_count tg e md w"
  then have "\<not> (md_title md \<noteq> [] \<and> available_count tg e md w = 1)"
    by simp
  then show "build_prompt e tg md (fst (content_parts tg e md w)) =
        multi_field_prompt (repr_list e (sorted_list_of_set (existing_tags tg)))
          (fst (content_parts tg e md w))"
    by (rule build_prompt_multi_field)
next
  show "title_only_prompt v p \<noteq> multi_field_prompt v' ps"
    by (rule prompts_differ)
next
  show "\<exists>rest.
      title_only_prompt v p =
        ''Please suggest 3-5 relevant tags for this document based only on its title.'' @ [LF] @
        prompt_rules v @ indent @ conservative_instruction @ [LF] @ rest \<and>
      multi_field_prompt v [p] =
        ''Please analyze this document and suggest 3-5 relevant tags.'' @ [LF] @
        prompt_rules v @ rest"
    by (rule exI [of _ "[LF] @ indent @ p @ [LF] @ [LF] @ prompt_end"])
       (simp add: title_only_prompt_def multi_field_prompt_def)
next
  show "fst (content_parts tg e md w) =
     (if md_title md \<noteq> [] then [''Title: '' @ md_title md] else []) @
     (if md_abstract md \<noteq> [] then [''Abstract: '' @ md_abstract md] else []) @
     (case webpage_excerpt tg e md w of
        None \<Rightarrow> []
      | Some c \<Rightarrow> if c \<noteq> [] then [''Webpage content: '' @ c] else []) @
     (case pdf_excerpt tg e md w of
        None \<Rightarrow> []
      | Some c \<Rightarrow> if c \<noteq> [] then [''PDF content: '' @ c] else [])"
    by (simp add: fst_content_parts part_def)
next
  show "title_only_prompt v p =
        ''Please suggest 3-5 relevant tags for this document based only on its title.'' @ [CHR 0x0A] @
        replicate 12 CHR '' '' @ ''Apply suitable tags from this existing set: '' @ v @ [CHR 0x0A] @
        replicate 12 CHR '' '' @ ''Create new tags if one of the central concepts from the paper is not among the existing tags. The document is already from an AI/ML collection, so refrain from setting generic tags like 'Machine Learning' or 'Computer Science'. '' @ [CHR 0x0A] @
        replicate 12 CHR '' '' @ ''Tags should be in Capital Case with spaces as separators (e.g., LLM Jailbreaking, Protein Design, ...)'' @ [CHR 0x0A] @
        replicate 12 CHR '' '' @ ''Be conservative with tag suggestions when working with title only.'' @ [CHR 0x0A] @
        [CHR 0x0A] @
        replicate 12 CHR '' '' @ p @ [CHR 0x0A] @
        [CHR 0x0A] @
        replicate 12 CHR '' '' @ ''Please respond with ONLY the tags, one per line, nothing else.''"
    by (simp add: title_only_prompt_def prompt_rules_def indent_def conservative_instruction_def
          prompt_end_def LF_def)
next
  show "multi_field_prompt v ps =
        ''Please analyze this document and suggest 3-5 relevant tags.'' @ [CHR 0x0A] @
        replicate 12 CHR '' '' @ ''Apply suitable tags from this existing set: '' @ v @ [CHR 0x0A] @
        replicate 12 CHR '' '' @ ''Create new tags if one of the central concepts from the paper is not among the existing tags. The document is already from an AI/ML collection, so refrain from setting generic tags like 'Machine Learning' or 'Computer Science'. '' @ [CHR 0x0A] @
        replicate 12 CHR '' '' @ ''Tags should be in Capital Case with spaces as separators (e.g., LLM Jailbreaking, Protein Design, ...)'' @ [CHR 0x0A] @
        [CHR 0x0A] @
        replicate 12 CHR '' '' @ join [CHR 0x0A] ps @ [CHR 0x0A] @
        [CHR 0x0A] @
        replicate 12 CHR '' '' @ ''Please respond with ONLY the tags, one per line, nothing else.''"
    by (simp add: multi_field_prompt_def prompt_rules_def indent_def prompt_end_def LF_def)
next
  show "calls (snd (snd (get_claude_suggestions e tg md w))) =
     calls (snd (content_parts tg e md w)) @
     [MessagesCreate (suggestion_request (build_prompt e tg md (fst (content_parts tg e md w))))]"
    by (rule calls_get_claude_suggestions)
qed

lemma available_count_metadata1: "available_count tagger0 env0 metadata1 world0 = 1"
  by (simp add: available_count_def available_fields_def webpage_excerpt_def pdf_excerpt_def
        metadata1_def metadata0_def available_def)

lemma pdf_excerpt_metadata0: "pdf_excerpt tagger0 env0 metadata0 world0 = Some ''alpha beta gamma''"
  by (simp add: pdf_excerpt_def metadata0_def tagger0_def options0_def fst_extract_text_from_pdf
        pdf_text_env0 split_ws_def isspace_def LF_def)

lemma webpage_excerpt_metadata0: "webpage_excerpt tagger0 env0 metadata0 world0 = None"
  by (simp add: webpage_excerpt_def metadata0_def tagger0_def options0_def
        fst_extract_text_from_webpage)

lemma available_count_metadata0: "available_count tagger0 env0 metadata0 world0 = 2"
  by (simp add: available_count_def available_fields_def pdf_excerpt_metadata0
        webpage_excerpt_metadata0 available_def)
     (simp add: metadata0_def)

theorem prompt_variant_witness:
  "build_prompt env0 tagger0 metadata1 (fst (content_parts tagger0 env0 metadata1 world0)) =
     title_only_prompt ''[]'' ''Title: Attention Is All You Need'' \<and>
   available_count tagger0 env0 metadata0 world0 = 2 \<and>
   build_prompt env0 tagger0 metadata0 (fst (content_parts tagger0 env0 metadata0 world0)) =
        ''Please analyze this document and suggest 3-5 relevant tags.'' @ [CHR 0x0A] @
        replicate 12 CHR '' '' @ ''Apply suitable tags from this existing set: []'' @ [CHR 0x0A] @
        replicate 12 CHR '' '' @ ''Create new tags if one of the central concepts from the paper is not among the existing tags. The document is already from an AI/ML collection, so refrain from setting generic tags like 'Machine Learning' or 'Computer Science'. '' @ [CHR 0x0A] @
        replicate 12 CHR '' '' @ ''Tags should be in Capital Case with spaces as separators (e.g., LLM Jailbreaking, Protein Design, ...)'' @ [CHR 0x0A] @
        [CHR 0x0A] @
        replicate 12 CHR '' '' @ ''Title: Attention Is All You Need'' @ [CHR 0x0A] @
        ''PDF content: alpha beta gamma'' @ [CHR 0x0A] @
        [CHR 0x0A] @
        replicate 12 CHR '' '' @ ''Please respond with ONLY the tags, one per line, nothing else.''"
proof -
  have t: "md_title metadata1 \<noteq> [] \<and> available_count tagger0 env0 metadata1 world0 = 1"
    by (simp add: available_count_metadata1) (simp add: metadata1_def metadata0_def)
  have v: "repr_list env0 (sorted_list_of_set (existing_tags tagger0)) = ''[]''"
    by (simp add: env0_def tagger0_def)
  have m: "2 \<le> available_count tagger0 env0 metadata0 world0"
    by (simp add: available_count_metadata0)
  have ex: "webpage_excerpt tagger0 env0 metadata0 world0 = None"
    "pdf_excerpt tagger0 env0 metadata0 world0 = Some ''alpha beta gamma''"
    by (rule webpage_excerpt_metadata0, rule pdf_excerpt_metadata0)
  note c9a = prompt_variant [of tagger0 env0 metadata1 world0]
  note c9b = prompt_variant [of tagger0 env0 metadata0 world0 "''[]''" _ _
      "[''Title: Attention Is All You Need'', ''PDF content: alpha beta gamma'']"]
  from c9a [THEN conjunct2, THEN conjunct1, THEN mp, OF t]
  have a: "build_prompt env0 tagger0 metadata1 (fst (content_parts tagger0 env0 metadata1 world0)) =
           title_only_prompt ''[]'' ''Title: Attention Is All You Need''"
    unfolding v by (simp add: metadata1_def metadata0_def)
  from c9b [THEN conjunct2, THEN conjunct2, THEN conjunct2, THEN conjunct2, THEN conjunct2, THEN conjunct2, THEN conjunct1]
  have parts: "fst (content_parts tagger0 env0 metadata0 world0) =
               [''Title: Attention Is All You Need'', ''PDF content: alpha beta gamma'']"
    unfolding ex by (simp add: metadata0_def)
  from c9b [THEN conjunct2, THEN conjunct2, THEN conjunct2, THEN conjunct1, THEN mp, OF m]
  have b: "build_prompt env0 tagger0 metadata0 (fst (content_parts tagger0 env0 metadata0 world0)) =
           multi_field_prompt ''[]''
             [''Title: Attention Is All You Need'', ''PDF content: alpha beta gamma'']"
    unfolding v parts .
  from c9b [THEN conjunct2, THEN conjunct2, THEN conjunct2, THEN conjunct2, THEN conjunct2, THEN conjunct2, THEN conjunct2, THEN conjunct2, THEN conjunct1]
  have c: "multi_field_prompt ''[]''
             [''Title: Attention Is All You Need'', ''PDF content: alpha beta gamma''] =
        ''Please analyze this document and suggest 3-5 relevant tags.'' @ [CHR 0x0A] @
        replicate 12 CHR '' '' @ ''Apply suitable tags from this existing set: []'' @ [CHR 0x0A] @
        replicate 12 CHR '' '' @ ''Create new tags if one of the central concepts from the paper is not among the existing tags. The document is already from an AI/ML collection, so refrain from setting generic tags like 'Machine Learning' or 'Computer Science'. '' @ [CHR 0x0A] @
        replicate 12 CHR '' '' @ ''Tags should be in Capital Case with spaces as separators (e.g., LLM Jailbreaking, Protein Design, ...)'' @ [CHR 0x0A] @
        [CHR 0x0A] @
        replicate 12 CHR '' '' @ ''Title: Attention Is All You Need'' @ [CHR 0x0A] @
        ''PDF content: alpha beta gamma'' @ [CHR 0x0A] @
        [CHR 0x0A] @
        replicate 12 CHR '' '' @ ''Please respond with ONLY the tags, one per line, nothing else.''"
    by simp
  show ?thesis
    unfolding a b c using available_count_metadata0 by simp
qed

section \<open>Tags, lines and the reader of the tags file\<close>






























section \<open>Suggestion calls, the vocabulary and the files\<close>

subsection \<open>What a suggestion call does to the vocabulary and to the files\<close>












subsection \<open>The invariant of the walk\<close>









subsection \<open>Sample runs\<close>







lemma sorted_tag_cr: "sorted_list_of_set {[CHR ''A'', CR, CHR ''B'']} = [[CHR ''A'', CR, CHR ''B'']]"
  by simp


















section \<open>Claims about the vocabulary file\<close>








section \<open>Claims about the persisted vocabulary\<close>





section \<open>Claims about the command line\<close>

text \<open>
  Claim C4. The flags of the command line are to be read by the argument parser
  and handed on as options and limit. The module never imports \<open>argparse\<close>, so
  line 293 fails on the name: for every command line \<open>main\<close> ends with
  \<open>NameError\<close> before a flag is read, and no tagger is constructed.
\<close>

theorem main_raises_NameError:
  "main e argv w = (Some (Exception ''NameError'' ''name 'argparse' is not defined''), w)"
  by (simp add: main_def module_globals_def)

end
